theory Spec2Isabelle
  imports Main "HOL-Library.Multiset"
begin

section \<open>JavaScript values and plain objects\<close>

text \<open>
  The values that flow through \<^verbatim>\<open>rtdb.ts\<close>: option fields (\<^verbatim>\<open>wait\<close>, \<^verbatim>\<open>reset\<close>,
  \<^verbatim>\<open>serialize\<close>), reset arguments and the component's data properties. A function value
  is an opaque identity; numbers are integers (no claim depends on fractions or NaN).
\<close>

datatype jsval =
    JUndefined
  | JNull
  | JBool bool
  | JNum int
  | JStr string
  | JFun nat
  | JArray "jsval list"
  | JObject "(string \<times> jsval) list"

text \<open>ToBoolean, as used by the conditional \<^verbatim>\<open>options.wait ? ... : ...\<close>.\<close>

fun truthy :: "jsval \<Rightarrow> bool" where
  "truthy JUndefined = False"
| "truthy JNull = False"
| "truthy (JBool b) = b"
| "truthy (JNum n) = (n \<noteq> 0)"
| "truthy (JStr s) = (s \<noteq> [])"
| "truthy (JFun f) = True"
| "truthy (JArray xs) = True"
| "truthy (JObject kvs) = True"

text \<open>\<^verbatim>\<open>typeof v === 'function'\<close> and \<^verbatim>\<open>Array.isArray(v)\<close>.\<close>

fun is_function :: "jsval \<Rightarrow> bool" where
  "is_function (JFun f) = True"
| "is_function v = False"

fun isArray :: "jsval \<Rightarrow> bool" where
  "isArray (JArray xs) = True"
| "isArray v = False"

text \<open>
  A plain object (\<^verbatim>\<open>Object.create(null)\<close>, an options literal, the component's data) is
  an association list in insertion order with distinct keys. Assigning to an existing
  key keeps its position, assigning to a new key appends, \<^verbatim>\<open>delete\<close> removes the entry.
\<close>

type_synonym 'v obj = "(string \<times> 'v) list"

definition obj_get :: "'v obj \<Rightarrow> string \<Rightarrow> 'v option" where
  "obj_get ob k = map_of ob k"

fun obj_set :: "'v obj \<Rightarrow> string \<Rightarrow> 'v \<Rightarrow> 'v obj" where
  "obj_set [] k v = [(k, v)]"
| "obj_set ((k', v') # rest) k v =
     (if k' = k then (k, v) # rest else (k', v') # obj_set rest k v)"

definition obj_delete :: "'v obj \<Rightarrow> string \<Rightarrow> 'v obj" where
  "obj_delete ob k = filter (\<lambda>p. fst p \<noteq> k) ob"

definition obj_keys :: "'v obj \<Rightarrow> string set" where
  "obj_keys ob = fst ` set ob"

text \<open>Reading a property that may be absent: \<^verbatim>\<open>o.f\<close> is \<^verbatim>\<open>undefined\<close> then.\<close>

definition get_prop :: "jsval obj \<Rightarrow> string \<Rightarrow> jsval" where
  "get_prop ob k = (case obj_get ob k of Some v \<Rightarrow> v | None \<Rightarrow> JUndefined)"

text \<open>
  The order in which \<^verbatim>\<open>for (const key in o)\<close> and \<^verbatim>\<open>Object.assign\<close> visit the own
  properties of a plain object: array-index keys (canonical decimal strings below
  \<open>2^32 - 1\<close>) in ascending numeric order, then all other keys in insertion order.
\<close>

definition is_digit :: "char \<Rightarrow> bool" where
  "is_digit c = (48 \<le> (of_char c :: nat) \<and> (of_char c :: nat) \<le> 57)"

definition index_value :: "string \<Rightarrow> nat" where
  "index_value s = foldl (\<lambda>n c. 10 * n + (of_char c - 48)) 0 s"

definition is_array_index :: "string \<Rightarrow> bool" where
  "is_array_index s =
     (s \<noteq> [] \<and> list_all is_digit s \<and> (s = ''0'' \<or> hd s \<noteq> CHR ''0'')
      \<and> index_value s < 4294967295)"

definition own_entries :: "'v obj \<Rightarrow> (string \<times> 'v) list" where
  "own_entries ob =
     sort_key (\<lambda>p. index_value (fst p)) (filter (\<lambda>p. is_array_index (fst p)) ob)
     @ filter (\<lambda>p. \<not> is_array_index (fst p)) ob"

text \<open>
  \<^verbatim>\<open>Object.assign(target, ...sources)\<close>: every own property of every source that is not
  \<^verbatim>\<open>undefined\<close> is written to the target, later sources after earlier ones. A source
  that is \<^verbatim>\<open>undefined\<close> (an omitted optional argument) is \<open>None\<close> and is skipped.
\<close>

fun object_assign :: "'v obj \<Rightarrow> 'v obj option list \<Rightarrow> 'v obj" where
  "object_assign target [] = target"
| "object_assign target (None # sources) = object_assign target sources"
| "object_assign target (Some s # sources) =
     object_assign (foldl (\<lambda>t p. obj_set t (fst p) (snd p)) target (own_entries s)) sources"

section \<open>Plugin options\<close>

text \<open>
  \<^verbatim>\<open>defaultOptions\<close> (lines 85-91). The record \<^verbatim>\<open>rtdbOptions\<close> is imported from
  \<^verbatim>\<open>../core\<close>, which is not part of the sources at hand: it is a parameter.
\<close>

definition defaultOptions :: "jsval obj \<Rightarrow> jsval obj" where
  "defaultOptions rtdbOptions =
     [(''bindName'', JStr ''$rtdbBind''),
      (''unbindName'', JStr ''$rtdbUnbind''),
      (''serialize'', get_prop rtdbOptions ''serialize''),
      (''reset'', get_prop rtdbOptions ''reset''),
      (''wait'', get_prop rtdbOptions ''wait'')]"

text \<open>
  Line 154: \<^verbatim>\<open>const globalOptions = Object.assign({}, defaultOptions, pluginOptions)\<close>,
  where the parameter \<^verbatim>\<open>pluginOptions\<close> defaults to \<^verbatim>\<open>defaultOptions\<close> when omitted.
\<close>

definition globalOptions :: "jsval obj \<Rightarrow> jsval obj option \<Rightarrow> jsval obj" where
  "globalOptions rtdbOptions pluginOptions =
     object_assign []
       [Some (defaultOptions rtdbOptions),
        Some (case pluginOptions of None \<Rightarrow> defaultOptions rtdbOptions | Some po \<Rightarrow> po)]"

text \<open>
  Line 171: \<^verbatim>\<open>const options = Object.assign({}, globalOptions, userOptions)\<close>, with
  \<^verbatim>\<open>userOptions\<close> an optional argument.
\<close>

definition effectiveOptions :: "jsval obj \<Rightarrow> jsval obj option \<Rightarrow> jsval obj" where
  "effectiveOptions globals userOptions = object_assign [] [Some globals, userOptions]"

text \<open>
  Lines 155-165: \<^verbatim>\<open>const { bindName, unbindName } = globalOptions\<close>, then the unbind
  method is assigned to \<^verbatim>\<open>app.config.globalProperties[unbindName]\<close> and after it the bind
  method to \<^verbatim>\<open>app.config.globalProperties[bindName]\<close>. Both names are declared
  \<^verbatim>\<open>string\<close> and optional, so each is a string or \<^verbatim>\<open>undefined\<close> (the property key
  \<^verbatim>\<open>'undefined'\<close>); any other value is outside the declared type and has no key here.
  When the two keys are equal the second assignment replaces the first.
\<close>

datatype installed = UnbindMethod | BindMethod

fun property_key :: "jsval \<Rightarrow> string option" where
  "property_key (JStr s) = Some s"
| "property_key JUndefined = Some ''undefined''"
| "property_key v = None"

definition globalProperties :: "jsval obj \<Rightarrow> installed obj option" where
  "globalProperties globals =
     (case (property_key (get_prop globals ''unbindName''),
            property_key (get_prop globals ''bindName'')) of
        (Some unbindName, Some bindName) \<Rightarrow>
          Some (obj_set (obj_set [] unbindName UnbindMethod) bindName BindMethod)
      | (Some unbindName, None) \<Rightarrow> None
      | (None, b) \<Rightarrow> None)"

text \<open>The method found by \<^verbatim>\<open>this[unbindName]\<close> (line 174).\<close>

definition this_unbindName :: "jsval obj \<Rightarrow> installed option" where
  "this_unbindName globals =
     (case (globalProperties globals, property_key (get_prop globals ''unbindName'')) of
        (Some gp, Some unbindName) \<Rightarrow> obj_get gp unbindName
      | (Some gp, None) \<Rightarrow> None
      | (None, u) \<Rightarrow> None)"

section \<open>The component instance and the external collaborators\<close>

text \<open>
  Exceptions are values. \<open>TypeError\<close> is what the language raises when a property of
  \<^verbatim>\<open>null\<close>/\<^verbatim>\<open>undefined\<close> is read or when \<^verbatim>\<open>undefined\<close> is called; \<open>RangeError\<close> is
  what it raises when the call stack is exhausted; \<open>Thrown\<close> is whatever an external
  collaborator throws.
\<close>

datatype exn = TypeError | RangeError | Thrown string

datatype 'a completion = Returned 'a | Threw exn

text \<open>
  The promise built by \<^verbatim>\<open>bind\<close>: its executor runs synchronously; an exception inside
  the executor rejects the promise instead of propagating. Later settlement belongs to
  the synchronization engine and is not modelled.
\<close>

datatype promise = Pending | Rejected exn

text \<open>
  The calls that leave this layer, in the order they are made: a synchronizer invoked
  for a key with a source and options, or the unsubscribe handle stored under a key
  called with a reset argument.
\<close>

datatype ('src, 'h) event =
    SyncArray string 'src "jsval obj"
  | SyncObject string 'src "jsval obj"
  | Teardown string 'h jsval

text \<open>
  The collaborators imported from \<^verbatim>\<open>../core\<close> and the Firebase SDK are opaque. Each
  is an arbitrary function of the calls made so far and of its arguments; it may throw,
  and it may change the component's data properties (a synchronizer initialises the
  local array, a handle applies the reset value). By their contracts they do not touch
  the three registry objects. \<open>sourceRef\<close> is the \<^verbatim>\<open>.ref\<close> getter of a source.
\<close>

record ('src, 'ref, 'h) collaborators =
  bindAsArray :: "('src, 'h) event list \<Rightarrow> string \<Rightarrow> 'src \<Rightarrow> jsval obj \<Rightarrow> jsval obj
                    \<Rightarrow> (exn + 'h) \<times> jsval obj"
  bindAsObject :: "('src, 'h) event list \<Rightarrow> string \<Rightarrow> 'src \<Rightarrow> jsval obj \<Rightarrow> jsval obj
                    \<Rightarrow> (exn + 'h) \<times> jsval obj"
  callHandle :: "('src, 'h) event list \<Rightarrow> 'h \<Rightarrow> jsval \<Rightarrow> jsval obj \<Rightarrow> exn option \<times> jsval obj"
  sourceRef :: "'src \<Rightarrow> 'ref"

text \<open>
  The component instance: its data properties, the three registry objects
  \<^verbatim>\<open>$firebaseRefs\<close>, \<^verbatim>\<open>_firebaseSources\<close>, \<^verbatim>\<open>_firebaseUnbinds\<close> (\<open>None\<close> when the property
  holds \<^verbatim>\<open>null\<close> or was never initialised), and the log of external calls.
\<close>

record ('src, 'ref, 'h) vm =
  props :: "jsval obj"
  firebaseRefs :: "'ref obj option"
  firebaseSources :: "'src obj option"
  firebaseUnbinds :: "'h obj option"
  trace :: "('src, 'h) event list"

section \<open>The operations of rtdb.ts\<close>

text \<open>\<^verbatim>\<open>getRef\<close> (lines 18-22).\<close>

definition getRef :: "('src, 'ref, 'h) collaborators \<Rightarrow> 'src \<Rightarrow> 'ref" where
  "getRef ext refOrQuery = sourceRef ext refOrQuery"

text \<open>
  \<^verbatim>\<open>bind\<close> (lines 30-65). The executor inspects \<^verbatim>\<open>vm[key]\<close>, calls one synchronizer and
  stores the handle it returns. If the synchronizer throws, or the assignment to
  \<^verbatim>\<open>vm._firebaseUnbinds[key]\<close> fails, the promise is rejected and nothing is stored.
\<close>

definition bind ::
  "('src, 'ref, 'h) collaborators \<Rightarrow> ('src, 'ref, 'h) vm \<Rightarrow> string \<Rightarrow> 'src \<Rightarrow> jsval obj
     \<Rightarrow> promise \<times> ('src, 'ref, 'h) vm" where
  "bind ext v key source options =
     (let (r, ps) =
            (if isArray (get_prop (props v) key)
             then bindAsArray ext (trace v) key source options (props v)
             else bindAsObject ext (trace v) key source options (props v));
          ev = (if isArray (get_prop (props v) key)
                then SyncArray key source options
                else SyncObject key source options);
          v1 = v\<lparr>props := ps, trace := trace v @ [ev]\<rparr>
      in case r of
           Inl e \<Rightarrow> (Rejected e, v1)
         | Inr h \<Rightarrow>
             (case firebaseUnbinds v1 of
                None \<Rightarrow> (Rejected TypeError, v1)
              | Some ub \<Rightarrow> (Pending, v1\<lparr>firebaseUnbinds := Some (obj_set ub key h)\<rparr>)))"

text \<open>\<^verbatim>\<open>unbind\<close> (lines 67-75).\<close>

definition unbind ::
  "('src, 'ref, 'h) collaborators \<Rightarrow> ('src, 'ref, 'h) vm \<Rightarrow> string \<Rightarrow> jsval
     \<Rightarrow> unit completion \<times> ('src, 'ref, 'h) vm" where
  "unbind ext v key reset =
     (case firebaseUnbinds v of
        None \<Rightarrow> (Threw TypeError, v)
      | Some ub \<Rightarrow>
          (case obj_get ub key of
             None \<Rightarrow> (Threw TypeError, v)
           | Some h \<Rightarrow>
               (let (r, ps) = callHandle ext (trace v) h reset (props v);
                    v1 = v\<lparr>props := ps, trace := trace v @ [Teardown key h reset]\<rparr>
                in case r of
                     Some e \<Rightarrow> (Threw e, v1)
                   | None \<Rightarrow>
                       (case firebaseSources v1 of
                          None \<Rightarrow> (Threw TypeError, v1)
                        | Some srcs \<Rightarrow>
                            (Returned (),
                             v1\<lparr>firebaseSources := Some (obj_delete srcs key),
                                firebaseUnbinds := Some (obj_delete ub key)\<rparr>)))))"

text \<open>The installed \<^verbatim>\<open>rtdbUnbind\<close> method (lines 157-162).\<close>

definition rtdbUnbind ::
  "('src, 'ref, 'h) collaborators \<Rightarrow> ('src, 'ref, 'h) vm \<Rightarrow> string \<Rightarrow> jsval
     \<Rightarrow> unit completion \<times> ('src, 'ref, 'h) vm" where
  "rtdbUnbind ext v key reset = unbind ext v key reset"

text \<open>
  The installed \<^verbatim>\<open>rtdbBind\<close> method (lines 165-193). A stored handle is a function,
  hence truthy, so the test of line 172 is whether the key has an entry. The teardown of
  line 174 goes through \<^verbatim>\<open>this[unbindName]\<close>. When that is the unbind method it is
  called with the key and the computed reset argument. When the plugin was installed
  with \<^verbatim>\<open>bindName\<close> equal to \<^verbatim>\<open>unbindName\<close> it is the bind method itself: the call
  re-enters \<^verbatim>\<open>rtdbBind\<close> on the same instance with the key still bound and nothing
  written, makes the same call again, and so on until the call stack is exhausted; the
  \<^verbatim>\<open>RangeError\<close> passes through every frame, no handle has been called and the instance
  is unchanged.
\<close>

definition rtdbBind ::
  "('src, 'ref, 'h) collaborators \<Rightarrow> jsval obj \<Rightarrow> ('src, 'ref, 'h) vm \<Rightarrow> string \<Rightarrow> 'src
     \<Rightarrow> jsval obj option \<Rightarrow> promise completion \<times> ('src, 'ref, 'h) vm" where
  "rtdbBind ext globals v key source userOptions =
     (let options = effectiveOptions globals userOptions in
      case firebaseUnbinds v of
        None \<Rightarrow> (Threw TypeError, v)
      | Some ub \<Rightarrow>
          (let (c, v1) =
                 (case obj_get ub key of
                    Some h \<Rightarrow>
                      (case this_unbindName globals of
                         Some UnbindMethod \<Rightarrow>
                           rtdbUnbind ext v key
                             (if truthy (get_prop options ''wait'')
                              then (if is_function (get_prop options ''reset'')
                                    then get_prop options ''reset''
                                    else JBool False)
                              else get_prop options ''reset'')
                       | Some BindMethod \<Rightarrow> (Threw RangeError, v)
                       | None \<Rightarrow> (Threw TypeError, v))
                  | None \<Rightarrow> (Returned (), v))
           in case c of
                Threw e \<Rightarrow> (Threw e, v1)
              | Returned u \<Rightarrow>
                  (let (p, v2) = bind ext v1 key source options in
                   case firebaseSources v2 of
                     None \<Rightarrow> (Threw TypeError, v2)
                   | Some srcs \<Rightarrow>
                       (let v3 = v2\<lparr>firebaseSources := Some (obj_set srcs key source)\<rparr> in
                        case firebaseRefs v3 of
                          None \<Rightarrow> (Threw TypeError, v3)
                        | Some refs \<Rightarrow>
                            (Returned p,
                             v3\<lparr>firebaseRefs :=
                                  Some (obj_set refs key (getRef ext source))\<rparr>)))))"

text \<open>The \<^verbatim>\<open>beforeCreate\<close> hook (lines 197-201).\<close>

definition beforeCreate :: "('src, 'ref, 'h) vm \<Rightarrow> ('src, 'ref, 'h) vm" where
  "beforeCreate v = v\<lparr>firebaseRefs := Some [], firebaseSources := Some [],
                      firebaseUnbinds := Some []\<rparr>"

text \<open>
  The \<^verbatim>\<open>created\<close> hook (lines 202-214). The \<^verbatim>\<open>firebase\<close> component option is absent,
  a record of sources, or a producer called on the instance; a producer result that is
  falsy is \<open>None\<close>. The promises returned by the bind calls are dropped.
\<close>

datatype 'src firebase_option =
    NoBindings
  | StaticBindings "'src obj"
  | BindingsProducer "jsval obj \<Rightarrow> 'src obj option"

fun created_loop ::
  "('src, 'ref, 'h) collaborators \<Rightarrow> jsval obj \<Rightarrow> ('src, 'ref, 'h) vm \<Rightarrow> (string \<times> 'src) list
     \<Rightarrow> unit completion \<times> ('src, 'ref, 'h) vm" where
  "created_loop ext globals v [] = (Returned (), v)"
| "created_loop ext globals v ((key, source) # rest) =
     (case rtdbBind ext globals v key source (Some globals) of
        (Threw e, v1) \<Rightarrow> (Threw e, v1)
      | (Returned p, v1) \<Rightarrow> created_loop ext globals v1 rest)"

definition created ::
  "('src, 'ref, 'h) collaborators \<Rightarrow> jsval obj \<Rightarrow> 'src firebase_option \<Rightarrow> ('src, 'ref, 'h) vm
     \<Rightarrow> unit completion \<times> ('src, 'ref, 'h) vm" where
  "created ext globals fb v =
     (case (case fb of
              NoBindings \<Rightarrow> None
            | StaticBindings b \<Rightarrow> Some b
            | BindingsProducer f \<Rightarrow> f (props v)) of
        None \<Rightarrow> (Returned (), v)
      | Some bindings \<Rightarrow> created_loop ext globals v (own_entries bindings))"

text \<open>
  The \<^verbatim>\<open>beforeDestroy\<close> hook (lines 216-226). The loop calls each stored handle with no
  argument; \<^verbatim>\<open>for ... in\<close> over \<^verbatim>\<open>null\<close> runs no iteration. An exception leaves the loop
  and the hook at once.
\<close>

fun beforeDestroy_loop ::
  "('src, 'ref, 'h) collaborators \<Rightarrow> ('src, 'ref, 'h) vm \<Rightarrow> (string \<times> 'h) list
     \<Rightarrow> unit completion \<times> ('src, 'ref, 'h) vm" where
  "beforeDestroy_loop ext v [] = (Returned (), v)"
| "beforeDestroy_loop ext v ((key, h) # rest) =
     (let (r, ps) = callHandle ext (trace v) h JUndefined (props v);
          v1 = v\<lparr>props := ps, trace := trace v @ [Teardown key h JUndefined]\<rparr>
      in case r of
           Some e \<Rightarrow> (Threw e, v1)
         | None \<Rightarrow> beforeDestroy_loop ext v1 rest)"

definition beforeDestroy ::
  "('src, 'ref, 'h) collaborators \<Rightarrow> ('src, 'ref, 'h) vm
     \<Rightarrow> unit completion \<times> ('src, 'ref, 'h) vm" where
  "beforeDestroy ext v =
     (let (c, v1) =
            (case firebaseUnbinds v of
               None \<Rightarrow> (Returned (), v)
             | Some ub \<Rightarrow> beforeDestroy_loop ext v (own_entries ub))
      in case c of
           Threw e \<Rightarrow> (Threw e, v1)
         | Returned u \<Rightarrow>
             (Returned (),
              v1\<lparr>firebaseSources := None, firebaseUnbinds := None, firebaseRefs := None\<rparr>))"

section \<open>Notions used in the statements\<close>

text \<open>An object has at most one entry per key.\<close>

definition wf_obj :: "'v obj \<Rightarrow> bool" where
  "wf_obj ob = distinct (map fst ob)"

text \<open>The logged call of the synchronizer that \<^verbatim>\<open>bind\<close> selects for a key.\<close>

definition sync_event :: "jsval obj \<Rightarrow> string \<Rightarrow> 'src \<Rightarrow> jsval obj \<Rightarrow> ('src, 'h) event" where
  "sync_event ps key source options =
     (if isArray (get_prop ps key) then SyncArray key source options
      else SyncObject key source options)"

text \<open>
  Calling the handles of a list of entries in order, each with no argument, starting
  from a log and data properties: the log and data reached when every call is made
  (\<open>handles_called\<close>), and whether every one of those calls returns
  (\<open>handles_return\<close>).
\<close>

fun handles_called ::
  "('src, 'ref, 'h) collaborators \<Rightarrow> (string \<times> 'h) list \<Rightarrow> ('src, 'h) event list
     \<Rightarrow> jsval obj \<Rightarrow> ('src, 'h) event list \<times> jsval obj" where
  "handles_called ext [] hist ps = (hist, ps)"
| "handles_called ext ((k, h) # es) hist ps =
     handles_called ext es (hist @ [Teardown k h JUndefined])
       (snd (callHandle ext hist h JUndefined ps))"

fun handles_return ::
  "('src, 'ref, 'h) collaborators \<Rightarrow> (string \<times> 'h) list \<Rightarrow> ('src, 'h) event list
     \<Rightarrow> jsval obj \<Rightarrow> bool" where
  "handles_return ext [] hist ps = True"
| "handles_return ext ((k, h) # es) hist ps =
     (fst (callHandle ext hist h JUndefined ps) = None
      \<and> handles_return ext es (hist @ [Teardown k h JUndefined])
            (snd (callHandle ext hist h JUndefined ps)))"

text \<open>
  The source and the unsubscribe objects are both absent or hold the same keys.
\<close>

definition registry_consistent :: "('src, 'ref, 'h) vm \<Rightarrow> bool" where
  "registry_consistent v =
     (case (firebaseSources v, firebaseUnbinds v) of
        (Some srcs, Some ub) \<Rightarrow> obj_keys srcs = obj_keys ub
      | (None, None) \<Rightarrow> True
      | (Some srcs, None) \<Rightarrow> False
      | (None, Some ub) \<Rightarrow> False)"

section \<open>Concrete collaborators and instances\<close>

text \<open>
  Collaborators for the concrete runs below. A synchronizer returns as its handle the
  number of external calls made before it, and leaves the data alone; a handle throws
  exactly when it is listed in \<open>failing\<close>; the reference of a source is the source.
\<close>

definition engine :: "nat list \<Rightarrow> (string, string, nat) collaborators" where
  "engine failing =
     \<lparr>bindAsArray = (\<lambda>hist key source options ps. (Inr (length hist), ps)),
      bindAsObject = (\<lambda>hist key source options ps. (Inr (length hist), ps)),
      callHandle = (\<lambda>hist h reset ps.
         (if h \<in> set failing then Some (Thrown ''detach failed'') else None, ps)),
      sourceRef = (\<lambda>source. source)\<rparr>"

text \<open>
  An instance before \<^verbatim>\<open>beforeCreate\<close>, with a record-valued and an array-valued
  data property; the instance after binding \<^verbatim>\<open>profile\<close>; and the instance after binding
  \<^verbatim>\<open>profile\<close> and \<^verbatim>\<open>items\<close> (lemmas \<open>bound_profile_reachable\<close> and
  \<open>two_bound_reachable\<close> run the code to reach them).
\<close>

definition blank :: "(string, string, nat) vm" where
  "blank = \<lparr>props = [(''profile'', JObject []), (''items'', JArray [])],
            firebaseRefs = None, firebaseSources = None, firebaseUnbinds = None,
            trace = []\<rparr>"

definition bound_profile :: "(string, string, nat) vm" where
  "bound_profile =
     \<lparr>props = [(''profile'', JObject []), (''items'', JArray [])],
      firebaseRefs = Some [(''profile'', ''users/1'')],
      firebaseSources = Some [(''profile'', ''users/1'')],
      firebaseUnbinds = Some [(''profile'', 0)],
      trace = [SyncObject ''profile'' ''users/1'' []]\<rparr>"

definition two_bound :: "(string, string, nat) vm" where
  "two_bound =
     \<lparr>props = [(''profile'', JObject []), (''items'', JArray [])],
      firebaseRefs = Some [(''profile'', ''users/1''), (''items'', ''todos'')],
      firebaseSources = Some [(''profile'', ''users/1''), (''items'', ''todos'')],
      firebaseUnbinds = Some [(''profile'', 0), (''items'', 1)],
      trace = [SyncObject ''profile'' ''users/1'' [], SyncArray ''items'' ''todos'' []]\<rparr>"

text \<open>
  The instance after binding \<^verbatim>\<open>profile\<close>, \<^verbatim>\<open>items\<close> and \<^verbatim>\<open>settings\<close> (lemma
  \<open>three_bound_reachable\<close>).
\<close>

definition three_bound :: "(string, string, nat) vm" where
  "three_bound =
     \<lparr>props = [(''profile'', JObject []), (''items'', JArray [])],
      firebaseRefs =
        Some [(''profile'', ''users/1''), (''items'', ''todos''), (''settings'', ''config'')],
      firebaseSources =
        Some [(''profile'', ''users/1''), (''items'', ''todos''), (''settings'', ''config'')],
      firebaseUnbinds = Some [(''profile'', 0), (''items'', 1), (''settings'', 2)],
      trace = [SyncObject ''profile'' ''users/1'' [], SyncArray ''items'' ''todos'' [],
               SyncObject ''settings'' ''config'' []]\<rparr>"



section \<open>Properties of plain objects\<close>

lemma obj_get_obj_set:
  "obj_get (obj_set ob k v) k' = (if k' = k then Some v else obj_get ob k')"
  by (induction ob) (auto simp: obj_get_def)

lemma map_fst_obj_set: "set (map fst (obj_set ob k v)) = insert k (set (map fst ob))"
proof (induction ob)
  case Nil
  show ?case by simp
next
  case (Cons p ob)
  obtain a b where p: "p = (a, b)" by (cases p)
  show ?case
  proof (cases "a = k")
    case True
    then show ?thesis by (simp add: p)
  next
    case False
    then show ?thesis using Cons.IH by (simp add: p insert_commute)
  qed
qed

lemma obj_keys_obj_set: "obj_keys (obj_set ob k v) = insert k (obj_keys ob)"
  using map_fst_obj_set [of ob k v] by (simp add: obj_keys_def)

lemma wf_obj_obj_set: "wf_obj ob \<Longrightarrow> wf_obj (obj_set ob k v)"
proof (induction ob)
  case Nil
  then show ?case by (simp add: wf_obj_def)
next
  case (Cons p ob)
  have "fst ` set (obj_set ob k v) = insert k (fst ` set ob)"
    using obj_keys_obj_set [of ob k v] by (simp add: obj_keys_def)
  with Cons show ?case by (cases p) (auto simp: wf_obj_def)
qed


lemma obj_keys_obj_delete: "obj_keys (obj_delete ob k) = obj_keys ob - {k}"
  by (auto simp: obj_keys_def obj_delete_def)

lemma wf_obj_obj_delete: "wf_obj ob \<Longrightarrow> wf_obj (obj_delete ob k)"
  by (simp add: wf_obj_def obj_delete_def distinct_map_filter)

lemma obj_get_None_iff: "obj_get ob k = None \<longleftrightarrow> k \<notin> obj_keys ob"
  by (simp add: obj_get_def obj_keys_def map_of_eq_None_iff)

lemma mset_own_entries: "mset (own_entries ob) = mset ob"
  by (simp add: own_entries_def)

lemma set_own_entries: "set (own_entries ob) = set ob"
  using mset_own_entries [of ob] by (metis set_mset_mset)

lemma wf_own_entries: "wf_obj ob \<Longrightarrow> distinct (map fst (own_entries ob))"
proof -
  have "mset (map fst (own_entries ob)) = mset (map fst ob)"
    by (simp add: mset_own_entries)
  then show "wf_obj ob \<Longrightarrow> distinct (map fst (own_entries ob))"
    unfolding wf_obj_def by (rule mset_eq_imp_distinct_iff [THEN iffD2])
qed

lemma map_of_own_entries: "wf_obj ob \<Longrightarrow> map_of (own_entries ob) = map_of ob"
  using wf_own_entries set_own_entries map_of_inject_set wf_obj_def by metis

lemma obj_get_assign_entries:
  "distinct (map fst es) \<Longrightarrow>
   obj_get (foldl (\<lambda>t p. obj_set t (fst p) (snd p)) t es) f =
     (case map_of es f of Some v \<Rightarrow> Some v | None \<Rightarrow> obj_get t f)"
proof (induction es arbitrary: t)
  case Nil
  then show ?case by simp
next
  case (Cons p es)
  obtain a b where p: "p = (a, b)" by (cases p)
  from Cons.prems have d: "distinct (map fst es)" and a: "a \<notin> fst ` set es"
    by (simp_all add: p)
  from a have n: "map_of es a = None" by (simp add: map_of_eq_None_iff)
  show ?case
    using Cons.IH [OF d, of "obj_set t a b"] n
    by (cases "map_of es f") (auto simp: p obj_get_obj_set)
qed

lemma wf_assign_entries:
  "wf_obj t \<Longrightarrow> wf_obj (foldl (\<lambda>t p. obj_set t (fst p) (snd p)) t es)"
  by (induction es arbitrary: t) (auto simp: wf_obj_obj_set)

lemma obj_get_assign_own:
  assumes "wf_obj s"
  shows "obj_get (foldl (\<lambda>t p. obj_set t (fst p) (snd p)) t (own_entries s)) f =
           (case obj_get s f of Some v \<Rightarrow> Some v | None \<Rightarrow> obj_get t f)"
proof -
  have "obj_get (foldl (\<lambda>t p. obj_set t (fst p) (snd p)) t (own_entries s)) f =
          (case map_of (own_entries s) f of Some v \<Rightarrow> Some v | None \<Rightarrow> obj_get t f)"
    using assms by (intro obj_get_assign_entries wf_own_entries)
  then show ?thesis
    using assms by (simp add: map_of_own_entries obj_get_def)
qed

section \<open>Properties of the operations\<close>

lemma unbind_bound:
  assumes "firebaseUnbinds v = Some ub" and "obj_get ub key = Some h"
  shows "unbind ext v key reset =
     (let (r, ps) = callHandle ext (trace v) h reset (props v);
          v1 = v\<lparr>props := ps, trace := trace v @ [Teardown key h reset]\<rparr>
      in case r of
           Some e \<Rightarrow> (Threw e, v1)
         | None \<Rightarrow>
             (case firebaseSources v of
                None \<Rightarrow> (Threw TypeError, v1)
              | Some srcs \<Rightarrow>
                  (Returned (),
                   v1\<lparr>firebaseSources := Some (obj_delete srcs key),
                      firebaseUnbinds := Some (obj_delete ub key)\<rparr>)))"
  using assms by (simp add: unbind_def Let_def split: prod.splits option.splits)

lemma bind_trace:
  "trace (snd (bind ext v key source options)) =
     trace v @ [sync_event (props v) key source options]"
  by (simp add: bind_def sync_event_def Let_def split: prod.splits sum.splits option.splits)



lemma rtdbBind_unbound_eq:
  assumes "firebaseUnbinds v = Some ub" and "obj_get ub key = None"
  shows "rtdbBind ext globals v key source userOptions =
     (let (p, v2) = bind ext v key source (effectiveOptions globals userOptions) in
      case firebaseSources v2 of
        None \<Rightarrow> (Threw TypeError, v2)
      | Some srcs \<Rightarrow>
          (let v3 = v2\<lparr>firebaseSources := Some (obj_set srcs key source)\<rparr> in
           case firebaseRefs v3 of
             None \<Rightarrow> (Threw TypeError, v3)
           | Some refs \<Rightarrow>
               (Returned p,
                v3\<lparr>firebaseRefs := Some (obj_set refs key (getRef ext source))\<rparr>)))"
  using assms by (simp add: rtdbBind_def Let_def)

lemma rtdbBind_unbound:
  assumes "firebaseUnbinds v = Some ub" and "obj_get ub key = None"
  shows "trace (snd (rtdbBind ext globals v key source userOptions)) =
           trace v @ [sync_event (props v) key source (effectiveOptions globals userOptions)]"
  using bind_trace [of ext v key source "effectiveOptions globals userOptions"]
  by (auto simp: rtdbBind_unbound_eq [OF assms] Let_def split: prod.splits option.splits)



lemma rtdbBind_bound:
  assumes "firebaseUnbinds v = Some ub" and "obj_get ub key = Some h"
    and "this_unbindName globals = Some UnbindMethod"
    and "options = effectiveOptions globals userOptions"
    and "arg = (if truthy (get_prop options ''wait'')
                 then (if is_function (get_prop options ''reset'')
                       then get_prop options ''reset'' else JBool False)
                 else get_prop options ''reset'')"
  shows "rtdbBind ext globals v key source userOptions =
     (case unbind ext v key arg of
           (Threw e, v1) \<Rightarrow> (Threw e, v1)
         | (Returned u, v1) \<Rightarrow>
             (let (p, v2) = bind ext v1 key source options in
              case firebaseSources v2 of
                None \<Rightarrow> (Threw TypeError, v2)
              | Some srcs \<Rightarrow>
                  (let v3 = v2\<lparr>firebaseSources := Some (obj_set srcs key source)\<rparr> in
                   case firebaseRefs v3 of
                     None \<Rightarrow> (Threw TypeError, v3)
                   | Some refs \<Rightarrow>
                       (Returned p,
                        v3\<lparr>firebaseRefs := Some (obj_set refs key (getRef ext source))\<rparr>))))"
  unfolding assms(4,5) using assms(1,2,3)
  by (simp add: rtdbBind_def rtdbUnbind_def Let_def split: prod.splits completion.splits)




subsection \<open>The destruction loop\<close>

lemma beforeDestroy_loop_registry:
  "beforeDestroy_loop ext v es = (c, v') \<Longrightarrow>
     firebaseRefs v' = firebaseRefs v \<and> firebaseSources v' = firebaseSources v
     \<and> firebaseUnbinds v' = firebaseUnbinds v"
proof (induction es arbitrary: v)
  case Nil
  then show ?case by simp
next
  case (Cons p es)
  obtain k h where p: "p = (k, h)" by (cases p)
  obtain r ps where c: "callHandle ext (trace v) h JUndefined (props v) = (r, ps)"
    by (cases "callHandle ext (trace v) h JUndefined (props v)")
  show ?case
  proof (cases r)
    case None
    with Cons.prems p c have
      "beforeDestroy_loop ext (v\<lparr>props := ps, trace := trace v @ [Teardown k h JUndefined]\<rparr>) es
         = (c, v')"
      by simp
    from Cons.IH [OF this] show ?thesis by simp
  next
    case (Some e)
    with Cons.prems p c show ?thesis by auto
  qed
qed

lemma handles_called_trace:
  "fst (handles_called ext es hist ps) = hist @ map (\<lambda>p. Teardown (fst p) (snd p) JUndefined) es"
  by (induction ext es hist ps rule: handles_called.induct) simp_all



lemma beforeDestroy_loop_first_failure:
  "handles_return ext pre (trace v) (props v) \<Longrightarrow>
   handles_called ext pre (trace v) (props v) = (hist, ps) \<Longrightarrow>
   callHandle ext hist h JUndefined ps = (Some e, ps') \<Longrightarrow>
   beforeDestroy_loop ext v (pre @ (k, h) # post) =
     (Threw e, v\<lparr>props := ps', trace := hist @ [Teardown k h JUndefined]\<rparr>)"
proof (induction pre arbitrary: v)
  case Nil
  then show ?case by simp
next
  case (Cons p pre)
  obtain k' h' where p: "p = (k', h')" by (cases p)
  obtain r qs where c: "callHandle ext (trace v) h' JUndefined (props v) = (r, qs)"
    by (cases "callHandle ext (trace v) h' JUndefined (props v)")
  define v1 where "v1 = v\<lparr>props := qs, trace := trace v @ [Teardown k' h' JUndefined]\<rparr>"
  from Cons.prems(1) p c have r: "r = None"
    and t: "handles_return ext pre (trace v1) (props v1)"
    by (simp_all add: v1_def)
  from Cons.prems(2) p c have s: "handles_called ext pre (trace v1) (props v1) = (hist, ps)"
    by (simp add: v1_def)
  from Cons.IH [OF t s Cons.prems(3)] show ?case
    by (simp add: p c r v1_def)
qed

subsection \<open>Agreement of the source and unsubscribe objects\<close>

text \<open>
  The two objects written by \<^verbatim>\<open>rtdbBind\<close> and deleted from by \<^verbatim>\<open>unbind\<close> keep the
  same keys across every operation, whatever its outcome, with one exception: a bind
  whose synchronizer throws inside the promise executor returns a rejected promise
  after writing the source only, which is why \<open>registry_consistent_rtdbBind\<close> asks for
  a pending promise.
\<close>

lemma registry_consistent_beforeCreate: "registry_consistent (beforeCreate v)"
  by (simp add: registry_consistent_def beforeCreate_def obj_keys_def)

lemma registry_consistent_unbind:
  assumes "registry_consistent v"
  shows "registry_consistent (snd (unbind ext v key reset))"
  using assms
  by (auto simp: registry_consistent_def unbind_def Let_def obj_keys_obj_delete
           split: option.splits prod.splits)

lemma bind_pending:
  assumes "bind ext v key source options = (Pending, v1)"
  shows "\<exists>ub h. firebaseUnbinds v = Some ub \<and> firebaseUnbinds v1 = Some (obj_set ub key h)
         \<and> firebaseSources v1 = firebaseSources v \<and> firebaseRefs v1 = firebaseRefs v"
  using assms
  by (auto simp: bind_def Let_def split: prod.splits sum.splits option.splits)

lemma registry_consistent_rtdbBind:
  assumes "registry_consistent v"
    and "rtdbBind ext globals v key source userOptions = (Returned Pending, v')"
  shows "registry_consistent v'"
proof -
  define options where "options = effectiveOptions globals userOptions"
  from assms(2) obtain ub where ub: "firebaseUnbinds v = Some ub"
    by (auto simp: rtdbBind_def Let_def split: option.splits)
  obtain v1 where v1: "registry_consistent v1"
    and b: "(let (p, v2) = bind ext v1 key source options in
              case firebaseSources v2 of
                None \<Rightarrow> (Threw TypeError, v2)
              | Some srcs \<Rightarrow>
                  (let v3 = v2\<lparr>firebaseSources := Some (obj_set srcs key source)\<rparr> in
                   case firebaseRefs v3 of
                     None \<Rightarrow> (Threw TypeError, v3)
                   | Some refs \<Rightarrow>
                       (Returned p,
                        v3\<lparr>firebaseRefs := Some (obj_set refs key (getRef ext source))\<rparr>)))
             = (Returned Pending, v')"
  proof (cases "obj_get ub key")
    case None
    with assms ub show ?thesis
      by (intro that [of v]) (simp_all add: rtdbBind_def Let_def options_def)
  next
    case (Some h)
    define arg where "arg = (if truthy (get_prop options ''wait'')
                 then (if is_function (get_prop options ''reset'')
                       then get_prop options ''reset'' else JBool False)
                 else get_prop options ''reset'')"
    have d: "this_unbindName globals = Some UnbindMethod"
    proof (cases "this_unbindName globals")
      case None
      with assms(2) ub Some show ?thesis
        by (simp add: rtdbBind_def Let_def)
    next
      case (Some m)
      with assms(2) ub \<open>obj_get ub key = Some h\<close> show ?thesis
        by (cases m) (simp_all add: rtdbBind_def Let_def)
    qed
    note eq = rtdbBind_bound [OF ub Some d options_def arg_def, of ext source]
    obtain c w where u: "unbind ext v key arg = (c, w)"
      by (cases "unbind ext v key arg")
    from registry_consistent_unbind [OF assms(1), of ext key arg] u
    have w: "registry_consistent w" by simp
    from assms(2) eq u show ?thesis
      by (cases c) (auto intro: that [of w] w)
  qed
  obtain p v2 where bd: "bind ext v1 key source options = (p, v2)"
    by (cases "bind ext v1 key source options")
  from b bd have p: "p = Pending"
    by (auto simp: Let_def split: option.splits)
  from bind_pending [OF bd [unfolded p]] obtain ub1 h where
    r: "firebaseUnbinds v1 = Some ub1" "firebaseUnbinds v2 = Some (obj_set ub1 key h)"
       "firebaseSources v2 = firebaseSources v1"
    by blast
  from v1 r(1) obtain srcs where s: "firebaseSources v1 = Some srcs" "obj_keys srcs = obj_keys ub1"
    by (auto simp: registry_consistent_def split: option.splits)
  from b bd r s show ?thesis
    by (auto simp: Let_def registry_consistent_def obj_keys_obj_set split: option.splits)
qed

lemma registry_consistent_beforeDestroy:
  assumes "registry_consistent v"
  shows "registry_consistent (snd (beforeDestroy ext v))"
proof (cases "firebaseUnbinds v")
  case None
  then show ?thesis
    by (simp add: beforeDestroy_def registry_consistent_def)
next
  case (Some ub)
  obtain c v1 where l: "beforeDestroy_loop ext v (own_entries ub) = (c, v1)"
    by (cases "beforeDestroy_loop ext v (own_entries ub)")
  from beforeDestroy_loop_registry [OF l] assms have "registry_consistent v1"
    by (simp add: registry_consistent_def)
  with Some l show ?thesis
    by (cases c) (simp_all add: beforeDestroy_def registry_consistent_def)
qed

subsection \<open>The concrete instances\<close>

lemma bound_profile_reachable:
  "snd (rtdbBind (engine []) [] (beforeCreate blank) ''profile'' ''users/1'' None) = bound_profile"
  by code_simp

lemma two_bound_reachable:
  "snd (created (engine []) []
          (StaticBindings [(''profile'', ''users/1''), (''items'', ''todos'')])
          (beforeCreate blank)) = two_bound"
  by code_simp

lemma not_array_index_profile: "\<not> is_array_index ''profile''"
  by code_simp

lemma not_array_index_items: "\<not> is_array_index ''items''"
  by code_simp


lemma not_array_index_settings: "\<not> is_array_index ''settings''"
  by code_simp

lemma own_entries_three_bound:
  "own_entries [(''profile'', a), (''items'', b), (''settings'', c)] =
     [(''profile'', a), (''items'', b), (''settings'', c)]"
  by (simp add: own_entries_def not_array_index_profile not_array_index_items
        not_array_index_settings)

lemma three_bound_reachable:
  "snd (created (engine []) []
          (StaticBindings
             [(''profile'', ''users/1''), (''items'', ''todos''), (''settings'', ''config'')])
          (beforeCreate blank)) = three_bound"
  by code_simp



section \<open>Rebind policy\<close>



section \<open>Unbind\<close>

text \<open>
  C2. Unbinding a bound key calls the stored handle with the given reset argument and
  removes the key from the source and unsubscribe objects. The entry of the key in
  \<^verbatim>\<open>$firebaseRefs\<close>, documented in the source as the bound references, is not removed:
  \<^verbatim>\<open>unbind\<close> has no \<^verbatim>\<open>delete\<close> for it, while \<^verbatim>\<open>rtdbBind\<close> writes it together with the
  source and \<^verbatim>\<open>beforeDestroy\<close> clears all three. The run below is
  \<^verbatim>\<open>unbind('profile', 'offline')\<close> on an instance whose only binding is \<^verbatim>\<open>profile\<close>.
\<close>

theorem unbind_keeps_canonical_reference:
  "unbind (engine []) bound_profile ''profile'' (JStr ''offline'') =
     (Returned (),
      \<lparr>props = [(''profile'', JObject []), (''items'', JArray [])],
       firebaseRefs = Some [(''profile'', ''users/1'')],
       firebaseSources = Some [],
       firebaseUnbinds = Some [],
       trace = [SyncObject ''profile'' ''users/1'' [],
                Teardown ''profile'' 0 (JStr ''offline'')]\<rparr>)"
  by code_simp

section \<open>Mode selection\<close>

text \<open>
  C3. \<^verbatim>\<open>bind\<close> calls exactly one synchronizer, chosen by whether the current value of
  the local property is an array: the collection synchronizer if it is, the
  single-value synchronizer for any other value (also when the property is absent).
  The source is passed on and never inspected. The same holds for the public entry
  point on a key that is not bound yet.
\<close>

theorem bind_mode_from_local_value:
  "trace (snd (bind ext v key source options)) =
     trace v @ [if isArray (get_prop (props v) key)
                then SyncArray key source options else SyncObject key source options]
   \<and> props (snd (bind ext v key source options)) =
       snd ((if isArray (get_prop (props v) key) then bindAsArray ext else bindAsObject ext)
              (trace v) key source options (props v))
   \<and> (firebaseUnbinds v = Some ub \<and> obj_get ub key = None \<longrightarrow>
        trace (snd (rtdbBind ext globals v key source userOptions)) =
          trace v @ [if isArray (get_prop (props v) key)
                     then SyncArray key source (effectiveOptions globals userOptions)
                     else SyncObject key source (effectiveOptions globals userOptions)])"
proof (intro conjI impI)
  show "trace (snd (bind ext v key source options)) =
     trace v @ [if isArray (get_prop (props v) key)
                then SyncArray key source options else SyncObject key source options]"
    using bind_trace [of ext v key source options] by (simp add: sync_event_def)
  show "props (snd (bind ext v key source options)) =
       snd ((if isArray (get_prop (props v) key) then bindAsArray ext else bindAsObject ext)
              (trace v) key source options (props v))"
    by (simp add: bind_def Let_def split: prod.splits sum.splits option.splits)
next
  assume "firebaseUnbinds v = Some ub \<and> obj_get ub key = None"
  then show "trace (snd (rtdbBind ext globals v key source userOptions)) =
          trace v @ [if isArray (get_prop (props v) key)
                     then SyncArray key source (effectiveOptions globals userOptions)
                     else SyncObject key source (effectiveOptions globals userOptions)]"
    using rtdbBind_unbound [of v ub key ext globals source userOptions]
    by (simp add: sync_event_def)
qed

theorem bind_mode_from_local_value_witness:
  "trace (snd (bind (engine []) (beforeCreate blank) ''items'' ''users/1'' [])) =
     [SyncArray ''items'' ''users/1'' []]
   \<and> trace (snd (bind (engine []) (beforeCreate blank) ''profile'' ''todos'' [])) =
     [SyncObject ''profile'' ''todos'' []]
   \<and> firebaseUnbinds (beforeCreate blank) = Some []
   \<and> obj_get ([] :: nat obj) ''items'' = None
   \<and> trace (snd (rtdbBind (engine []) [] (beforeCreate blank) ''items'' ''users/1'' None)) =
     [SyncArray ''items'' ''users/1'' []]"
proof -
  have h1: "firebaseUnbinds (beforeCreate blank) = Some []"
    by (simp add: beforeCreate_def)
  have h2: "obj_get ([] :: nat obj) ''items'' = None"
    by (simp add: obj_get_def)
  have i: "isArray (get_prop (props (beforeCreate blank)) ''items'')"
    by code_simp
  have p: "\<not> isArray (get_prop (props (beforeCreate blank)) ''profile'')"
    by code_simp
  have t: "trace (beforeCreate blank) = []"
    by (simp add: beforeCreate_def blank_def)
  have e: "effectiveOptions [] None = []"
    by code_simp
  from bind_mode_from_local_value
         [of "engine []" "beforeCreate blank" "''items''" "''users/1''" "[]" "[]" "[]" None]
       h1 h2 i t e
  have a: "trace (snd (bind (engine []) (beforeCreate blank) ''items'' ''users/1'' [])) =
             [SyncArray ''items'' ''users/1'' []]
           \<and> trace (snd (rtdbBind (engine []) [] (beforeCreate blank) ''items'' ''users/1'' None)) =
             [SyncArray ''items'' ''users/1'' []]"
    by simp
  from bind_mode_from_local_value
         [of "engine []" "beforeCreate blank" "''profile''" "''todos''" "[]" "[]" "[]" None]
       p t
  have b: "trace (snd (bind (engine []) (beforeCreate blank) ''profile'' ''todos'' [])) =
             [SyncObject ''profile'' ''todos'' []]"
    by simp
  from a b h1 h2 show ?thesis by blast
qed

section \<open>Ordering of teardown and synchronization on rebind\<close>




section \<open>Destruction\<close>




text \<open>
  C6, as the code has it. If, during \<^verbatim>\<open>beforeDestroy\<close>, the handles of the entries
  enumerated first return and the call of the next handle throws, the exception
  propagates to the caller of the hook and the hook ends with that call: the instance
  is left with the data that call left and a log ending in it, so the handles of the
  entries enumerated after it are not called, and the three registry properties are
  what they were (none is discarded). There is no \<^verbatim>\<open>try\<close> around the call of a handle.
\<close>

theorem beforeDestroy_stops_at_failing_handle:
  fixes v :: "('src, 'ref, 'h) vm"
  assumes "firebaseUnbinds v = Some ub"
    and "own_entries ub = pre @ (k, h) # post"
    and "handles_return ext pre (trace v) (props v)"
    and "handles_called ext pre (trace v) (props v) = (hist, ps)"
    and "callHandle ext hist h JUndefined ps = (Some e, ps')"
  shows "beforeDestroy ext v =
           (Threw e,
            v\<lparr>props := ps',
              trace := trace v @ map (\<lambda>p. Teardown (fst p) (snd p) JUndefined) pre
                         @ [Teardown k h JUndefined]\<rparr>)"
proof -
  have "hist = trace v @ map (\<lambda>p. Teardown (fst p) (snd p) JUndefined) pre"
    using handles_called_trace [of ext pre "trace v" "props v"] assms(4) by simp
  with beforeDestroy_loop_first_failure [OF assms(3,4,5), of k post]
  show ?thesis
    using assms(1,2) by (simp add: beforeDestroy_def)
qed

theorem beforeDestroy_stops_at_failing_handle_witness:
  "firebaseUnbinds three_bound = Some [(''profile'', 0), (''items'', 1), (''settings'', 2)]
   \<and> own_entries [(''profile'', 0::nat), (''items'', 1), (''settings'', 2)]
       = [(''profile'', 0)] @ (''items'', 1) # [(''settings'', 2)]
   \<and> handles_return (engine [1]) [(''profile'', 0)] (trace three_bound) (props three_bound)
   \<and> handles_called (engine [1]) [(''profile'', 0)] (trace three_bound) (props three_bound)
       = (trace three_bound @ [Teardown ''profile'' 0 JUndefined], props three_bound)
   \<and> callHandle (engine [1]) (trace three_bound @ [Teardown ''profile'' 0 JUndefined]) 1
         JUndefined (props three_bound)
       = (Some (Thrown ''detach failed''), props three_bound)
   \<and> beforeDestroy (engine [1]) three_bound =
        (Threw (Thrown ''detach failed''),
         three_bound\<lparr>props := props three_bound,
           trace := trace three_bound
             @ [Teardown ''profile'' 0 JUndefined, Teardown ''items'' 1 JUndefined]\<rparr>)"
proof -
  have h1: "firebaseUnbinds three_bound
              = Some [(''profile'', 0), (''items'', 1), (''settings'', 2)]"
    by (simp add: three_bound_def)
  have h2: "own_entries [(''profile'', 0::nat), (''items'', 1), (''settings'', 2)]
              = [(''profile'', 0)] @ (''items'', 1) # [(''settings'', 2)]"
    by (simp add: own_entries_three_bound)
  have h3: "handles_return (engine [1]) [(''profile'', 0)] (trace three_bound)
              (props three_bound)"
    by (simp add: engine_def)
  have h4: "handles_called (engine [1]) [(''profile'', 0)] (trace three_bound)
              (props three_bound)
            = (trace three_bound @ [Teardown ''profile'' 0 JUndefined], props three_bound)"
    by (simp add: engine_def)
  have h5: "callHandle (engine [1]) (trace three_bound @ [Teardown ''profile'' 0 JUndefined]) 1
              JUndefined (props three_bound)
            = (Some (Thrown ''detach failed''), props three_bound)"
    by (simp add: engine_def)
  from beforeDestroy_stops_at_failing_handle [OF h1 h2 h3 h4 h5]
  have "beforeDestroy (engine [1]) three_bound =
        (Threw (Thrown ''detach failed''),
         three_bound\<lparr>props := props three_bound,
           trace := trace three_bound
             @ [Teardown ''profile'' 0 JUndefined, Teardown ''items'' 1 JUndefined]\<rparr>)"
    by simp
  with h1 h2 h3 h4 h5 show ?thesis by (intro conjI)
qed

text \<open>
  C6 as stated fails: with \<^verbatim>\<open>profile\<close> and \<^verbatim>\<open>items\<close> bound and the handle of
  \<^verbatim>\<open>profile\<close> throwing, the handle of \<^verbatim>\<open>items\<close> is never called.
\<close>

theorem beforeDestroy_skips_remaining_keys_counterexample:
  "fst (beforeDestroy (engine [0]) two_bound) = Threw (Thrown ''detach failed'')
   \<and> trace (snd (beforeDestroy (engine [0]) two_bound)) =
        [SyncObject ''profile'' ''users/1'' [], SyncArray ''items'' ''todos'' [],
         Teardown ''profile'' 0 JUndefined]
   \<and> Teardown ''items'' 1 JUndefined \<notin> set (trace (snd (beforeDestroy (engine [0]) two_bound)))
   \<and> firebaseUnbinds (snd (beforeDestroy (engine [0]) two_bound))
       = Some [(''profile'', 0), (''items'', 1)]"
  by code_simp

section \<open>Unbinding a key that is not bound\<close>

text \<open>
  C7. Unbinding a key that has no entry in the unsubscribe object throws at once (the
  looked-up handle is \<^verbatim>\<open>undefined\<close> and calling it is a \<^verbatim>\<open>TypeError\<close>); nothing is
  called and the instance is unchanged. It is not a silent no-op.
\<close>

theorem unbind_unbound_key_is_error:
  assumes "firebaseUnbinds v = Some ub" and "obj_get ub key = None"
  shows "unbind ext v key reset = (Threw TypeError, v)
         \<and> rtdbUnbind ext v key reset = (Threw TypeError, v)"
  using assms by (simp add: unbind_def rtdbUnbind_def)

theorem unbind_unbound_key_is_error_witness:
  "firebaseUnbinds (beforeCreate blank) = Some []
   \<and> obj_get ([] :: nat obj) ''profile'' = None
   \<and> unbind (engine []) (beforeCreate blank) ''profile'' JUndefined
       = (Threw TypeError, beforeCreate blank)
   \<and> rtdbUnbind (engine []) (beforeCreate blank) ''profile'' JUndefined
       = (Threw TypeError, beforeCreate blank)"
proof -
  have h1: "firebaseUnbinds (beforeCreate blank) = Some []"
    by (simp add: beforeCreate_def)
  have h2: "obj_get ([] :: nat obj) ''profile'' = None"
    by (simp add: obj_get_def)
  from unbind_unbound_key_is_error [OF h1 h2, of "engine []" JUndefined] h1 h2
  show ?thesis by blast
qed

section \<open>Registry invariant\<close>

text \<open>
  C8. The source and unsubscribe objects agree on their keys (lemmas
  \<open>registry_consistent_beforeCreate\<close>, \<open>registry_consistent_rtdbBind\<close>,
  \<open>registry_consistent_unbind\<close>, \<open>registry_consistent_beforeDestroy\<close>), but
  \<^verbatim>\<open>$firebaseRefs\<close> keeps the entry of a key after the key is unbound. The run below
  goes through the public operations only: \<^verbatim>\<open>beforeCreate\<close>, bind \<^verbatim>\<open>profile\<close>, unbind
  \<^verbatim>\<open>profile\<close>.
\<close>

theorem canonical_reference_outlives_binding:
  "firebaseUnbinds
     (snd (rtdbUnbind (engine [])
        (snd (rtdbBind (engine []) [] (beforeCreate blank) ''profile'' ''users/1'' None))
        ''profile'' JUndefined)) = Some []
   \<and> firebaseSources
     (snd (rtdbUnbind (engine [])
        (snd (rtdbBind (engine []) [] (beforeCreate blank) ''profile'' ''users/1'' None))
        ''profile'' JUndefined)) = Some []
   \<and> firebaseRefs
     (snd (rtdbUnbind (engine [])
        (snd (rtdbBind (engine []) [] (beforeCreate blank) ''profile'' ''users/1'' None))
        ''profile'' JUndefined)) = Some [(''profile'', ''users/1'')]"
  by code_simp

section \<open>Option resolution\<close>

text \<open>
  C9. Option resolution is a field-by-field merge: a field present in the overrides
  takes the override's value (also when that value is \<^verbatim>\<open>undefined\<close>), a field absent
  from the overrides, or every field when the overrides are omitted, takes the
  default's value. Both merges of the source are covered: the per-call merge of line 171
  and the plugin-level merge of line 154. The merge is a total function of its two
  arguments, so it has neither side effects nor failure modes.
\<close>

theorem option_resolution_merge:
  assumes "wf_obj defaults" and "wf_obj overrides"
  shows "obj_get (effectiveOptions defaults (Some overrides)) f =
           (case obj_get overrides f of Some v \<Rightarrow> Some v | None \<Rightarrow> obj_get defaults f)
         \<and> obj_get (effectiveOptions defaults None) f = obj_get defaults f
         \<and> obj_get (globalOptions rtdbOptions (Some overrides)) f =
           (case obj_get overrides f of Some v \<Rightarrow> Some v
            | None \<Rightarrow> obj_get (defaultOptions rtdbOptions) f)
         \<and> obj_get (globalOptions rtdbOptions None) f = obj_get (defaultOptions rtdbOptions) f"
proof -
  have wd: "wf_obj (defaultOptions rtdbOptions)"
    by (simp add: wf_obj_def defaultOptions_def)
  have e: "obj_get ([] :: jsval obj) f = None"
    by (simp add: obj_get_def)
  have one: "obj_get (object_assign [] [Some s]) f = obj_get s f" if "wf_obj s" for s :: "jsval obj"
    using that by (cases "obj_get s f") (simp_all add: obj_get_assign_own e)
  have two: "obj_get (object_assign [] [Some s, Some u]) f =
        (case obj_get u f of Some v \<Rightarrow> Some v | None \<Rightarrow> obj_get s f)"
    if "wf_obj s" and "wf_obj u" for s u :: "jsval obj"
    using that
    by (cases "obj_get s f"; cases "obj_get u f") (simp_all add: obj_get_assign_own e)
  show ?thesis
    using assms wd one two
    by (simp add: effectiveOptions_def globalOptions_def split: option.splits)
qed

theorem option_resolution_merge_witness:
  "wf_obj [(''reset'', JBool True), (''wait'', JBool False)]
   \<and> wf_obj [(''wait'', JBool True)]
   \<and> obj_get (effectiveOptions [(''reset'', JBool True), (''wait'', JBool False)]
                (Some [(''wait'', JBool True)])) ''wait'' = Some (JBool True)
   \<and> obj_get (effectiveOptions [(''reset'', JBool True), (''wait'', JBool False)]
                (Some [(''wait'', JBool True)])) ''reset'' = Some (JBool True)
   \<and> obj_get (effectiveOptions [(''reset'', JBool True), (''wait'', JBool False)] None)
         ''wait'' = Some (JBool False)"
  using option_resolution_merge
          [of "[(''reset'', JBool True), (''wait'', JBool False)]" "[(''wait'', JBool True)]"
              "''wait''"]
        option_resolution_merge
          [of "[(''reset'', JBool True), (''wait'', JBool False)]" "[(''wait'', JBool True)]"
              "''reset''"]
  by (simp add: wf_obj_def obj_get_def)

section \<open>A handle that throws during unbind\<close>

text \<open>
  C10. If the stored handle throws when \<^verbatim>\<open>unbind\<close> calls it, the exception
  propagates and nothing is removed: the source, unsubscribe and reference objects are
  what they were before the call.
\<close>

theorem unbind_failure_keeps_registry:
  assumes "firebaseUnbinds v = Some ub" and "obj_get ub key = Some h"
    and "fst (callHandle ext (trace v) h reset (props v)) = Some e"
  shows "fst (unbind ext v key reset) = Threw e
         \<and> firebaseSources (snd (unbind ext v key reset)) = firebaseSources v
         \<and> firebaseUnbinds (snd (unbind ext v key reset)) = firebaseUnbinds v
         \<and> firebaseRefs (snd (unbind ext v key reset)) = firebaseRefs v"
  using assms
  by (auto simp: unbind_bound [OF assms(1,2)] Let_def split: prod.splits)

theorem unbind_failure_keeps_registry_witness:
  "firebaseUnbinds bound_profile = Some [(''profile'', 0)]
   \<and> obj_get [(''profile'', 0::nat)] ''profile'' = Some 0
   \<and> fst (callHandle (engine [0]) (trace bound_profile) 0 (JStr ''offline'') (props bound_profile))
       = Some (Thrown ''detach failed'')
   \<and> fst (unbind (engine [0]) bound_profile ''profile'' (JStr ''offline''))
       = Threw (Thrown ''detach failed'')
   \<and> firebaseSources (snd (unbind (engine [0]) bound_profile ''profile'' (JStr ''offline'')))
       = Some [(''profile'', ''users/1'')]
   \<and> firebaseUnbinds (snd (unbind (engine [0]) bound_profile ''profile'' (JStr ''offline'')))
       = Some [(''profile'', 0)]"
proof -
  have h1: "firebaseUnbinds bound_profile = Some [(''profile'', 0)]"
    by (simp add: bound_profile_def)
  have h2: "obj_get [(''profile'', 0::nat)] ''profile'' = Some 0"
    by (simp add: obj_get_def)
  have h3: "fst (callHandle (engine [0]) (trace bound_profile) 0 (JStr ''offline'')
                  (props bound_profile)) = Some (Thrown ''detach failed'')"
    by (simp add: engine_def)
  have s: "firebaseSources bound_profile = Some [(''profile'', ''users/1'')]"
    by (simp add: bound_profile_def)
  from unbind_failure_keeps_registry [OF h1 h2 h3] h1 h2 h3 s
  show ?thesis by simp
qed

end
